theory Spec2Isabelle
  imports Main "HOL-Library.Word"
begin

section \<open>The GitHub integration page\<close>

text \<open>
  A shallow embedding of \<^verbatim>\<open>src/app/(protected)/integrations/github/page.tsx\<close>, the
  React component \<^verbatim>\<open>GitHubIntegrationPage\<close>. The component's \<^verbatim>\<open>useState\<close> cells are
  the fields of a record; each \<^verbatim>\<open>async\<close> handler is split at its \<^verbatim>\<open>await fetch\<close> into the
  part that runs at the call and the part that runs when the request settles; the JSX
  returned by the component is a value of the datatype \<open>view\<close>.
\<close>

subsection \<open>Strings\<close>

text \<open>\<^verbatim>\<open>s.startsWith(pat)\<close>.\<close>

fun startsWith :: "string \<Rightarrow> string \<Rightarrow> bool" where
  "startsWith s [] = True"
| "startsWith [] (c # pat) = False"
| "startsWith (d # s) (c # pat) = (d = c \<and> startsWith s pat)"

text \<open>\<^verbatim>\<open>s.includes(pat)\<close>.\<close>

fun includes_str :: "string \<Rightarrow> string \<Rightarrow> bool" where
  "includes_str [] pat = startsWith [] pat"
| "includes_str (d # s) pat = (startsWith (d # s) pat \<or> includes_str s pat)"

text \<open>
  \<^verbatim>\<open>s.replace(pat, rep)\<close> with a string pattern: the first occurrence of \<open>pat\<close> in \<open>s\<close>,
  at whatever index, is replaced by \<open>rep\<close>; without an occurrence \<open>s\<close> is returned
  unchanged. (The replacement used by the page contains no \<^verbatim>\<open>$\<close>, so it is inserted
  literally.)
\<close>

fun replace :: "string \<Rightarrow> string \<Rightarrow> string \<Rightarrow> string" where
  "replace [] pat rep = (if startsWith [] pat then rep else [])"
| "replace (d # s) pat rep =
     (if startsWith (d # s) pat then rep @ drop (length pat) (d # s)
      else d # replace s pat rep)"

text \<open>The decimal numeral of a natural number.\<close>

definition digit :: "nat \<Rightarrow> char" where
  "digit d = ''0123456789'' ! d"

fun decimal :: "nat \<Rightarrow> string" where
  "decimal n = (if n < 10 then [digit n] else decimal (n div 10) @ [digit (n mod 10)])"

declare decimal.simps [simp del]

text \<open>
  A count as a JavaScript number: a non-negative integer below \<open>2 ^ 53\<close>. On this range a
  number holds every integer exactly, and \<^verbatim>\<open>Number.prototype.toString\<close>, which a template
  literal applies, gives its decimal numeral. Numbers outside this range (fractions, negative
  numbers, and the larger ones, which are printed from their shortest round-trip digits or
  with an exponent) are not values of this type.
\<close>

type_synonym count = "53 word"

definition toString :: "count \<Rightarrow> string" where
  "toString c = decimal (unat c)"

subsection \<open>Data\<close>

text \<open>A value of type \<^verbatim>\<open>unknown\<close> that came out of \<^verbatim>\<open>response.json()\<close>.\<close>

datatype json =
  JNull | JBool bool | JNum int | JStr string | JArr "json list" | JObj "(string \<times> json) list"

record GitHubUser =
  login :: string
  name :: "string option"
  avatar_url :: string
  bio :: "string option"
  public_repos :: nat

record GitHubRepo =
  repo_id :: nat
  repo_name :: string
  repo_full_name :: string
  description :: "string option"
  stargazers_count :: nat
  forks_count :: nat
  repo_updated_at :: string
  html_url :: string

record GitHubNotification =
  notification_id :: string
  repository_full_name :: string
  subject_title :: string
  subject_url :: "string option"
  reason :: string
  updated_at :: string

text \<open>The \<^verbatim>\<open>error\<close> state cell: \<^verbatim>\<open>{ message: string; details?: unknown } | null\<close>.\<close>

record ErrorState =
  message :: string
  details :: "json option"

text \<open>
  What \<^verbatim>\<open>useUser()\<close> returns: \<^verbatim>\<open>isLoaded\<close> and the user, who may be absent, and whose
  list of external accounts is read through \<^verbatim>\<open>?.\<close>.
\<close>

record externalAccount =
  provider :: string

record clerkUser =
  externalAccounts :: "externalAccount list option"

record identity =
  isLoaded :: bool
  user :: "clerkUser option"

text \<open>
  \<^verbatim>\<open>user?.externalAccounts?.some((account) => account.provider === "github")\<close>:
  \<open>None\<close> is \<^verbatim>\<open>undefined\<close>.
\<close>

definition isConnected :: "identity \<Rightarrow> bool option" where
  "isConnected i =
     (case user i of
        None \<Rightarrow> None
      | Some u \<Rightarrow>
          (case externalAccounts u of
             None \<Rightarrow> None
           | Some accounts \<Rightarrow> Some (list_ex (\<lambda>account. provider account = ''github'') accounts)))"

text \<open>Truthiness of a \<^verbatim>\<open>boolean | undefined\<close>.\<close>

fun truthy :: "bool option \<Rightarrow> bool" where
  "truthy None = False"
| "truthy (Some b) = b"

subsection \<open>Requests and their outcomes\<close>

datatype http_method = GET | POST

datatype request = Fetch http_method string

datatype toast = ToastSuccess string string | ToastError string string

text \<open>The body of a non-ok response: \<^verbatim>\<open>{ error: string, details?: unknown }\<close>.\<close>

record errorData =
  body_error :: string
  body_details :: "json option"

text \<open>
  A value caught by \<^verbatim>\<open>catch (err: unknown)\<close>: an \<^verbatim>\<open>Error\<close> with its message and the
  \<^verbatim>\<open>details\<close> of its cause, or anything else.
\<close>

datatype thrown = ErrorObj string "json option" | NonError

text \<open>
  How an awaited request ends: an ok response with its parsed body, a non-ok response with
  its parsed body, or a throw of \<^verbatim>\<open>fetch\<close> or \<^verbatim>\<open>response.json()\<close>.
\<close>

datatype 'a outcome = RespOk 'a | RespNotOk errorData | Throws thrown

text \<open>
  The \<^verbatim>\<open>try\<close> block common to the three handlers, up to the parsed body:
  \<^verbatim>\<open>if (!response.ok) throw new Error(errorData.error, { cause: errorData })\<close>.
\<close>

fun try_response :: "'a outcome \<Rightarrow> thrown + 'a" where
  "try_response (RespOk a) = Inr a"
| "try_response (RespNotOk b) = Inl (ErrorObj (body_error b) (body_details b))"
| "try_response (Throws t) = Inl t"

record data =
  data_user :: "GitHubUser option"
  data_repos :: "GitHubRepo list"
  data_notifications :: "GitHubNotification list"

record syncResult =
  chunks :: count

subsection \<open>The component's state\<close>

text \<open>
  The six \<^verbatim>\<open>useState\<close> cells and the value of \<^verbatim>\<open>useUser()\<close>, together with what the
  component has done to its surroundings: the \<^verbatim>\<open>fetch\<close> calls issued so far, how many of
  each are still awaited, and the toasts shown.
\<close>

record page =
  ident :: identity
  githubUser :: "GitHubUser option"
  repos :: "GitHubRepo list"
  notifications :: "GitHubNotification list"
  loading :: bool
  isSyncing :: bool
  error :: "ErrorState option"
  requests :: "request list"
  pendingData :: nat
  pendingSync :: nat
  pendingDisconnect :: nat
  toasts :: "toast list"

text \<open>The browser either shows the page or has been sent elsewhere by
  \<^verbatim>\<open>window.location.href = ...\<close>, which unloads the page and everything it held.\<close>

datatype browser = OnPage page | Navigated string

definition initial :: "identity \<Rightarrow> page" where
  "initial i =
     \<lparr>ident = i, githubUser = None, repos = [], notifications = [], loading = True,
      isSyncing = False, error = None, requests = [], pendingData = 0, pendingSync = 0,
      pendingDisconnect = 0, toasts = []\<rparr>"

subsection \<open>The handlers\<close>

text \<open>The \<^verbatim>\<open>catch\<close> block of \<^verbatim>\<open>fetchGitHubData\<close> and \<^verbatim>\<open>handleDisconnect\<close>.\<close>

fun caught :: "thrown \<Rightarrow> ErrorState" where
  "caught (ErrorObj m d) = \<lparr>message = m, details = d\<rparr>"
| "caught NonError = \<lparr>message = ''An unknown error occurred'', details = None\<rparr>"

text \<open>\<^verbatim>\<open>fetchGitHubData\<close> up to its \<^verbatim>\<open>await fetch\<close>.\<close>

definition fetchGitHubData :: "page \<Rightarrow> page" where
  "fetchGitHubData p =
     (if \<not> isLoaded (ident p) \<or> \<not> truthy (isConnected (ident p))
      then p\<lparr>loading := False\<rparr>
      else p\<lparr>requests := requests p @ [Fetch GET ''/api/github/data''],
             pendingData := Suc (pendingData p)\<rparr>)"

text \<open>\<^verbatim>\<open>fetchGitHubData\<close> from the settlement of its request to its \<^verbatim>\<open>finally\<close>.\<close>

definition fetchGitHubData_settled :: "page \<Rightarrow> data outcome \<Rightarrow> page" where
  "fetchGitHubData_settled p out =
     (case try_response out of
        Inr d \<Rightarrow>
          p\<lparr>githubUser := data_user d, repos := data_repos d,
            notifications := data_notifications d, loading := False\<rparr>
      | Inl t \<Rightarrow> p\<lparr>error := Some (caught t), loading := False\<rparr>)"

text \<open>\<^verbatim>\<open>handleDisconnect\<close>, at the click and at the settlement.\<close>

definition handleDisconnect :: "page \<Rightarrow> page" where
  "handleDisconnect p =
     p\<lparr>requests := requests p @ [Fetch POST ''/api/github/disconnect''],
       pendingDisconnect := Suc (pendingDisconnect p)\<rparr>"

definition handleDisconnect_settled :: "page \<Rightarrow> unit outcome \<Rightarrow> browser" where
  "handleDisconnect_settled p out =
     (case try_response out of
        Inr _ \<Rightarrow> Navigated ''/integrations''
      | Inl t \<Rightarrow> OnPage (p\<lparr>error := Some (caught t)\<rparr>))"

text \<open>\<^verbatim>\<open>handleSync\<close>, at the click and at the settlement.\<close>

definition handleSync :: "page \<Rightarrow> page" where
  "handleSync p =
     p\<lparr>isSyncing := True,
       requests := requests p @ [Fetch POST ''/api/github/sync''],
       pendingSync := Suc (pendingSync p)\<rparr>"

definition handleSync_settled :: "page \<Rightarrow> syncResult outcome \<Rightarrow> page" where
  "handleSync_settled p out =
     (case try_response out of
        Inr result \<Rightarrow>
          p\<lparr>toasts := toasts p @
               [ToastSuccess ''GitHub Data Synced''
                  (''Successfully stored '' @ toString (chunks result) @
                   '' chunks in the database.'')],
            isSyncing := False\<rparr>
      | Inl (ErrorObj m d) \<Rightarrow>
          p\<lparr>error := Some \<lparr>message = m, details = d\<rparr>,
            toasts := toasts p @ [ToastError ''Sync Failed'' m],
            isSyncing := False\<rparr>
      | Inl NonError \<Rightarrow>
          p\<lparr>toasts := toasts p @ [ToastError ''Sync Failed'' ''An unknown error occurred''],
            isSyncing := False\<rparr>)"

subsection \<open>The rendered view\<close>

record profile_card =
  avatar_src :: string
  avatar_alt :: string
  heading :: string
  bio_text :: "string option"
  repositories :: nat

record notification_row =
  row_key :: string
  row_title :: string
  row_repository :: string
  row_updated :: string
  link :: "string option"

record dashboard =
  sync_disabled :: bool
  sync_label :: string
  profile :: "profile_card option"
  no_notifications :: bool
  rows :: "notification_row list"

datatype view = Loading | NotConnected | ErrorPanel string json | Connected dashboard

text \<open>\<^verbatim>\<open>githubUser.name ?? githubUser.login\<close>, and \<^verbatim>\<open>githubUser.bio && ...\<close>.\<close>

definition profile_of :: "GitHubUser \<Rightarrow> profile_card" where
  "profile_of u =
     \<lparr>avatar_src = avatar_url u, avatar_alt = login u,
      heading = (case name u of None \<Rightarrow> login u | Some n \<Rightarrow> n),
      bio_text = (case bio u of None \<Rightarrow> None | Some b \<Rightarrow> if b = [] then None else Some b),
      repositories = public_repos u\<rparr>"

text \<open>
  \<^verbatim>\<open>notification.subject.url && <Link href={notification.subject.url.replace(...)}>\<close>:
  no link for \<^verbatim>\<open>null\<close> or the empty string.
\<close>

definition link_target :: "string option \<Rightarrow> string option" where
  "link_target url =
     (case url of
        None \<Rightarrow> None
      | Some u \<Rightarrow>
          if u = [] then None else Some (replace u ''api.github.com/repos'' ''github.com''))"

text \<open>The date is kept as the timestamp given to \<^verbatim>\<open>new Date\<close>; its locale format is not
  modelled.\<close>

definition row_of :: "GitHubNotification \<Rightarrow> notification_row" where
  "row_of n =
     \<lparr>row_key = notification_id n, row_title = subject_title n,
      row_repository = repository_full_name n @ '' ('' @ reason n @ '')'',
      row_updated = updated_at n,
      link = link_target (subject_url n)\<rparr>"

definition dashboard_of :: "page \<Rightarrow> dashboard" where
  "dashboard_of p =
     \<lparr>sync_disabled = isSyncing p,
      sync_label = (if isSyncing p then ''Syncing...'' else ''Sync Data''),
      profile = map_option profile_of (githubUser p),
      no_notifications = (length (notifications p) = 0),
      rows = map row_of (notifications p)\<rparr>"

text \<open>\<^verbatim>\<open>error.details ?? {}\<close>, the value handed to \<^verbatim>\<open>JSON.stringify\<close>.\<close>

fun details_dump :: "json option \<Rightarrow> json" where
  "details_dump None = JObj []"
| "details_dump (Some JNull) = JObj []"
| "details_dump (Some d) = d"

text \<open>The four \<^verbatim>\<open>return\<close>s of the component, in the order of the source.\<close>

definition render :: "page \<Rightarrow> view" where
  "render p =
     (if \<not> isLoaded (ident p) \<or> loading p then Loading
      else if \<not> truthy (isConnected (ident p)) then NotConnected
      else case error p of
             Some e \<Rightarrow> ErrorPanel (message e) (details_dump (details e))
           | None \<Rightarrow> Connected (dashboard_of p))"

subsection \<open>The life of one mount\<close>

text \<open>
  What happens to a mounted page: \<^verbatim>\<open>useUser()\<close> returns a new value, a request settles,
  or the user clicks one of the two buttons of the dashboard.
\<close>

datatype event =
  IdentityChanged identity
| DataSettled "data outcome"
| SyncClicked
| SyncSettled "syncResult outcome"
| DisconnectClicked
| DisconnectSettled "unit outcome"

text \<open>
  The first render followed by the first run of the effect, which React runs after every
  mount.
\<close>

definition mount :: "identity \<Rightarrow> page" where
  "mount i = fetchGitHubData (initial i)"

text \<open>
  A re-render with a new value of \<^verbatim>\<open>useUser()\<close>: the effect runs again when one of its
  dependencies \<^verbatim>\<open>[userLoaded, isConnected]\<close> has changed.
\<close>

definition useUser_changed :: "page \<Rightarrow> identity \<Rightarrow> page" where
  "useUser_changed p i =
     (if isLoaded i \<noteq> isLoaded (ident p) \<or> isConnected i \<noteq> isConnected (ident p)
      then fetchGitHubData (p\<lparr>ident := i\<rparr>)
      else p\<lparr>ident := i\<rparr>)"

text \<open>
  A button can be clicked only where it is rendered, and the sync button only while it is not
  \<^verbatim>\<open>disabled\<close>; a settlement needs a request that is awaited.
\<close>

fun step :: "page \<Rightarrow> event \<Rightarrow> browser" where
  "step p (IdentityChanged i) = OnPage (useUser_changed p i)"
| "step p (DataSettled out) =
     (if pendingData p = 0 then OnPage p
      else OnPage (fetchGitHubData_settled (p\<lparr>pendingData := pendingData p - 1\<rparr>) out))"
| "step p SyncClicked =
     (case render p of
        Connected d \<Rightarrow> if sync_disabled d then OnPage p else OnPage (handleSync p)
      | _ \<Rightarrow> OnPage p)"
| "step p (SyncSettled out) =
     (if pendingSync p = 0 then OnPage p
      else OnPage (handleSync_settled (p\<lparr>pendingSync := pendingSync p - 1\<rparr>) out))"
| "step p DisconnectClicked =
     (case render p of
        Connected d \<Rightarrow> OnPage (handleDisconnect p)
      | _ \<Rightarrow> OnPage p)"
| "step p (DisconnectSettled out) =
     (if pendingDisconnect p = 0 then OnPage p
      else handleDisconnect_settled (p\<lparr>pendingDisconnect := pendingDisconnect p - 1\<rparr>) out)"

fun run :: "browser \<Rightarrow> event list \<Rightarrow> browser" where
  "run b [] = b"
| "run (Navigated url) (e # es) = Navigated url"
| "run (OnPage p) (e # es) = run (step p e) es"

subsection \<open>Classifying views and URLs\<close>

text \<open>The four view states, read off the value that \<open>render\<close> returns.\<close>

datatype view_state = LoadingView | NotConnectedView | ErrorView | ConnectedView

fun state_of :: "view \<Rightarrow> view_state" where
  "state_of Loading = LoadingView"
| "state_of NotConnected = NotConnectedView"
| "state_of (ErrorPanel m d) = ErrorView"
| "state_of (Connected d) = ConnectedView"

text \<open>
  The specification speaks of a subject URL "with host/path prefix
  \<^verbatim>\<open>api.github.com/repos\<close>". Following these words, \<open>host_path\<close> is what comes after the
  first \<^verbatim>\<open>://\<close> of a URL (the whole text when there is none), and \<open>has_api_prefix\<close> says
  that this part starts with \<^verbatim>\<open>api.github.com/repos\<close>. The page itself has no such
  notion: it calls \<open>replace\<close>.
\<close>

fun after_scheme :: "string \<Rightarrow> string" where
  "after_scheme [] = []"
| "after_scheme (c # s) = (if startsWith (c # s) ''://'' then drop 3 (c # s) else after_scheme s)"

definition host_path :: "string \<Rightarrow> string" where
  "host_path u = (if includes_str u ''://'' then after_scheme u else u)"

definition has_api_prefix :: "string \<Rightarrow> bool" where
  "has_api_prefix u = startsWith (host_path u) ''api.github.com/repos''"

text \<open>
  What a text of decimal digits denotes: \<open>is_digit\<close> recognises the ten digits,
  \<open>digit_value\<close> gives the value of one, and \<open>numeral_value\<close> reads a text of digits from
  the left. They say what it means for a text to be the numeral of a count; the page does not
  use them.
\<close>

definition is_digit :: "char \<Rightarrow> bool" where
  "is_digit c = (c \<in> set ''0123456789'')"

definition digit_value :: "char \<Rightarrow> nat" where
  "digit_value c = length (takeWhile (\<lambda>x. x \<noteq> c) ''0123456789'')"

definition numeral_value :: "string \<Rightarrow> nat" where
  "numeral_value s = foldl (\<lambda>a c. 10 * a + digit_value c) 0 s"

subsection \<open>Sample inputs\<close>

definition github_identity :: identity where
  "github_identity =
     \<lparr>isLoaded = True, user = Some \<lparr>externalAccounts = Some [\<lparr>provider = ''github''\<rparr>]\<rparr>\<rparr>"

definition google_identity :: identity where
  "google_identity =
     \<lparr>isLoaded = True, user = Some \<lparr>externalAccounts = Some [\<lparr>provider = ''google''\<rparr>]\<rparr>\<rparr>"

definition unloaded_identity :: identity where
  "unloaded_identity = \<lparr>isLoaded = False, user = None\<rparr>"

definition octocat :: GitHubUser where
  "octocat =
     \<lparr>login = ''octocat'', name = None, avatar_url = ''https://avatars.example/1'',
      bio = None, public_repos = 8\<rparr>"

definition sample_data :: data where
  "sample_data = \<lparr>data_user = Some octocat, data_repos = [], data_notifications = []\<rparr>"

definition rate_limited :: errorData where
  "rate_limited = \<lparr>body_error = ''Rate limited'', body_details = None\<rparr>"

definition mona :: GitHubUser where
  "mona =
     \<lparr>login = ''mona'', name = Some ''Mona Lisa'', avatar_url = ''https://avatars.example/2'',
      bio = Some ''Painter'', public_repos = 3\<rparr>"

text \<open>The page after a mount with a linked account and a successful fetch.\<close>

definition loaded_page :: page where
  "loaded_page =
     \<lparr>ident = github_identity, githubUser = Some octocat, repos = [], notifications = [],
      loading = False, isSyncing = False, error = None,
      requests = [Fetch GET ''/api/github/data''],
      pendingData = 0, pendingSync = 0, pendingDisconnect = 0, toasts = []\<rparr>"

text \<open>The same page after a click on the sync button, and after that sync has failed.\<close>

definition syncing_page :: page where
  "syncing_page =
     \<lparr>ident = github_identity, githubUser = Some octocat, repos = [], notifications = [],
      loading = False, isSyncing = True, error = None,
      requests = [Fetch GET ''/api/github/data'', Fetch POST ''/api/github/sync''],
      pendingData = 0, pendingSync = 1, pendingDisconnect = 0, toasts = []\<rparr>"

definition sync_failed_page :: page where
  "sync_failed_page =
     \<lparr>ident = github_identity, githubUser = Some octocat, repos = [], notifications = [],
      loading = False, isSyncing = False,
      error = Some \<lparr>message = ''Rate limited'', details = None\<rparr>,
      requests = [Fetch GET ''/api/github/data'', Fetch POST ''/api/github/sync''],
      pendingData = 0, pendingSync = 0, pendingDisconnect = 0,
      toasts = [ToastError ''Sync Failed'' ''Rate limited'']\<rparr>"

subsection \<open>Kinds of events\<close>

fun is_SyncSettled :: "event \<Rightarrow> bool" where
  "is_SyncSettled (SyncSettled out) = True"
| "is_SyncSettled e = False"

text \<open>The outcomes for which the \<^verbatim>\<open>catch\<close> block of \<^verbatim>\<open>handleSync\<close> calls
  \<^verbatim>\<open>setError\<close>: a non-ok response and a thrown \<^verbatim>\<open>Error\<close>.\<close>

fun sets_error :: "'a outcome \<Rightarrow> bool" where
  "sets_error (RespOk a) = False"
| "sets_error (RespNotOk b) = True"
| "sets_error (Throws (ErrorObj m d)) = True"
| "sets_error (Throws NonError) = False"

text \<open>An event that leaves the user without a linked GitHub account.\<close>

fun no_github :: "event \<Rightarrow> bool" where
  "no_github (IdentityChanged i) = (\<not> truthy (isConnected i))"
| "no_github e = True"

section \<open>Properties\<close>

lemmas handler_defs =
  fetchGitHubData_def fetchGitHubData_settled_def handleSync_def handleSync_settled_def
  handleDisconnect_def handleDisconnect_settled_def useUser_changed_def

lemma github_connected: "isConnected github_identity = Some True"
  by (simp add: github_identity_def isConnected_def)

lemma google_not_connected: "isConnected google_identity = Some False"
  by (simp add: google_identity_def isConnected_def)

lemma unloaded_not_connected: "isConnected unloaded_identity = None"
  by (simp add: unloaded_identity_def isConnected_def)

lemma sample_loaded:
  "isLoaded github_identity" "isLoaded google_identity" "\<not> isLoaded unloaded_identity"
  by (simp_all add: github_identity_def google_identity_def unloaded_identity_def)

lemmas sample_simps =
  github_connected google_not_connected unloaded_not_connected sample_loaded

lemma run_Navigated: "run (Navigated url) evs = Navigated url"
  by (cases evs) simp_all

subsection \<open>Strings\<close>

lemma startsWith_take: "startsWith s pat = (take (length pat) s = pat)"
  by (induction s pat rule: startsWith.induct) auto

lemma startsWith_append: "startsWith (pat @ s) pat"
  by (simp add: startsWith_take)

lemma includes_startsWith: "startsWith s pat \<Longrightarrow> includes_str s pat"
  by (cases s) auto

lemma includes_append: "includes_str (a @ pat @ s) pat"
  by (induction a) (auto simp: includes_startsWith startsWith_append)

lemma includes_Nil: "includes_str s []"
  by (cases s) auto

lemma replace_absent: "\<not> includes_str s pat \<Longrightarrow> replace s pat rep = s"
  by (induction s) auto

lemma replace_startsWith:
  "startsWith s pat \<Longrightarrow> replace s pat rep = rep @ drop (length pat) s"
  by (cases s) auto

text \<open>
  An occurrence of \<open>pat\<close> that no other occurrence precedes is the one replaced: an earlier
  occurrence would lie inside \<open>pre\<close> followed by all but the last character of \<open>pat\<close>.
\<close>

lemma replace_first:
  "\<not> includes_str (pre @ butlast pat) pat \<Longrightarrow>
   replace (pre @ pat @ rest) pat rep = pre @ rep @ rest"
proof (induction pre)
  case Nil
  show ?case
    using replace_startsWith [OF startsWith_append, of pat rest rep] by simp
next
  case (Cons c pre)
  from Cons.prems have ne: "pat \<noteq> []"
    using includes_Nil by blast
  from Cons.prems have a: "\<not> startsWith (c # pre @ butlast pat) pat"
    and b: "\<not> includes_str (pre @ butlast pat) pat"
    by auto
  have len: "length pat \<le> length (c # pre @ butlast pat)"
    using ne by (cases pat) auto
  have "c # pre @ pat @ rest = (c # pre @ butlast pat) @ (last pat # rest)"
    using ne by simp
  then have "take (length pat) (c # pre @ pat @ rest) = take (length pat) (c # pre @ butlast pat)"
    using len by (metis append_eq_conv_conj append_take_drop_id take_append take_all_iff
        diff_is_0_eq' take_0 append_Nil2)
  with a have "\<not> startsWith (c # pre @ pat @ rest) pat"
    by (simp add: startsWith_take)
  with Cons.IH [OF b] show ?case
    by simp
qed

subsection \<open>The notification link\<close>

text \<open>
  C3, as stated: the link target is rewritten for the subject URLs with host/path prefix
  \<^verbatim>\<open>api.github.com/repos\<close> and only for those. The page does not look at where the text
  occurs: the subject URL \<^verbatim>\<open>https://example.com/api.github.com/repos/x\<close> has host
  \<^verbatim>\<open>example.com\<close>, and is nevertheless linked as \<^verbatim>\<open>https://example.com/github.com/x\<close>.
\<close>

theorem link_rewrite_only_api_prefix_counterexample:
  "\<not> has_api_prefix ''https://example.com/api.github.com/repos/x'' \<and>
   link_target (Some ''https://example.com/api.github.com/repos/x'') =
     Some ''https://example.com/github.com/x''"
  by (simp add: has_api_prefix_def host_path_def link_target_def)

text \<open>
  C3, amended: for every rendered notification, that is for every subject URL that is neither
  \<^verbatim>\<open>null\<close> nor empty, the link target is the subject URL with the first occurrence of
  \<^verbatim>\<open>api.github.com/repos\<close>, wherever it stands, replaced by \<^verbatim>\<open>github.com\<close>; a URL in which
  the text does not occur is linked unchanged. In particular a URL
  \<^verbatim>\<open>https://api.github.com/repos...\<close> is linked as \<^verbatim>\<open>https://github.com...\<close>, and
  \<^verbatim>\<open>https://api.github.com/repos/acme/widget/issues/3\<close> as
  \<^verbatim>\<open>https://github.com/acme/widget/issues/3\<close>.
\<close>

theorem link_target_replaces_first_occurrence:
  "(u \<noteq> [] \<and> \<not> includes_str u ''api.github.com/repos'' \<longrightarrow> link_target (Some u) = Some u) \<and>
   (\<not> includes_str (pre @ butlast ''api.github.com/repos'') ''api.github.com/repos'' \<longrightarrow>
      link_target (Some (pre @ ''api.github.com/repos'' @ rest)) =
        Some (pre @ ''github.com'' @ rest)) \<and>
   link_target (Some (''https://api.github.com/repos'' @ rest)) =
     Some (''https://github.com'' @ rest) \<and>
   link_target (Some ''https://api.github.com/repos/acme/widget/issues/3'') =
     Some ''https://github.com/acme/widget/issues/3''"
proof -
  have absent: "u \<noteq> [] \<and> \<not> includes_str u ''api.github.com/repos'' \<longrightarrow>
      link_target (Some u) = Some u"
    by (simp add: link_target_def replace_absent)
  have first: "\<not> includes_str (pre @ butlast ''api.github.com/repos'') ''api.github.com/repos'' \<longrightarrow>
      link_target (Some (pre @ ''api.github.com/repos'' @ rest)) =
        Some (pre @ ''github.com'' @ rest)"
    using replace_first [of pre "''api.github.com/repos''" rest "''github.com''"]
    by (simp add: link_target_def)
  have https: "link_target (Some (''https://api.github.com/repos'' @ rest)) =
      Some (''https://github.com'' @ rest)"
    by (simp add: link_target_def)
  have example: "link_target (Some ''https://api.github.com/repos/acme/widget/issues/3'') =
      Some ''https://github.com/acme/widget/issues/3''"
    by (simp add: link_target_def)
  from absent first https example show ?thesis
    by blast
qed

theorem link_target_replaces_first_occurrence_witness:
  "''https://github.com/acme'' \<noteq> [] \<and>
   \<not> includes_str ''https://github.com/acme'' ''api.github.com/repos'' \<and>
   link_target (Some ''https://github.com/acme'') = Some ''https://github.com/acme'' \<and>
   \<not> includes_str (''git+https://'' @ butlast ''api.github.com/repos'') ''api.github.com/repos'' \<and>
   link_target (Some (''git+https://'' @ ''api.github.com/repos'' @ ''/acme/widget'')) =
     Some (''git+https://'' @ ''github.com'' @ ''/acme/widget'')"
  using link_target_replaces_first_occurrence
    [of "''https://github.com/acme''" "''git+https://''" "''/acme/widget''"]
  by simp

subsection \<open>Invariants of a mounted page\<close>

lemma ident_mount: "ident (mount i) = i"
  by (simp add: mount_def initial_def fetchGitHubData_def)

text \<open>The \<^verbatim>\<open>loading\<close> cell is set only while the identity is loaded and linked.\<close>

lemma loading_inv_mount: "loading (mount i) \<longrightarrow> isLoaded i \<and> truthy (isConnected i)"
  by (simp add: mount_def initial_def fetchGitHubData_def)

lemma loading_inv_step:
  "loading p \<longrightarrow> isLoaded (ident p) \<and> truthy (isConnected (ident p)) \<Longrightarrow>
   step p e = OnPage p' \<Longrightarrow>
   loading p' \<longrightarrow> isLoaded (ident p') \<and> truthy (isConnected (ident p'))"
  by (cases e)
    (auto simp: handler_defs split: if_splits sum.splits thrown.splits view.splits)

lemma loading_inv_run:
  "loading p \<longrightarrow> isLoaded (ident p) \<and> truthy (isConnected (ident p)) \<Longrightarrow>
   run (OnPage p) evs = OnPage p' \<Longrightarrow>
   loading p' \<longrightarrow> isLoaded (ident p') \<and> truthy (isConnected (ident p'))"
proof (induction evs arbitrary: p)
  case Nil
  then show ?case by simp
next
  case (Cons e evs)
  show ?case
  proof (cases "step p e")
    case (OnPage q)
    from loading_inv_step [OF Cons.prems(1) OnPage]
    have "loading q \<longrightarrow> isLoaded (ident q) \<and> truthy (isConnected (ident q))" .
    moreover from Cons.prems(2) OnPage have "run (OnPage q) evs = OnPage p'" by simp
    ultimately show ?thesis by (rule Cons.IH)
  next
    case (Navigated url)
    with Cons.prems(2) show ?thesis by (simp add: run_Navigated)
  qed
qed

text \<open>Without a linked account nothing is ever requested.\<close>

lemma never_connected_step:
  "\<not> truthy (isConnected (ident p)) \<Longrightarrow> requests p = [] \<Longrightarrow> no_github e \<Longrightarrow>
   step p e = OnPage p' \<Longrightarrow> \<not> truthy (isConnected (ident p')) \<and> requests p' = []"
  by (cases e)
    (auto simp: handler_defs render_def split: if_splits sum.splits thrown.splits)

lemma never_connected_run:
  "\<not> truthy (isConnected (ident p)) \<Longrightarrow> requests p = [] \<Longrightarrow> list_all no_github evs \<Longrightarrow>
   run (OnPage p) evs = OnPage p' \<Longrightarrow> requests p' = []"
proof (induction evs arbitrary: p)
  case Nil
  then show ?case by simp
next
  case (Cons e evs)
  show ?case
  proof (cases "step p e")
    case (OnPage q)
    from Cons.prems have "no_github e" by simp
    from never_connected_step [OF Cons.prems(1,2) this OnPage]
    have q: "\<not> truthy (isConnected (ident q))" "requests q = []" by simp_all
    from Cons.prems OnPage have "list_all no_github evs" "run (OnPage q) evs = OnPage p'"
      by simp_all
    with q show ?thesis using Cons.IH by blast
  next
    case (Navigated url)
    with Cons.prems(4) show ?thesis by (simp add: run_Navigated)
  qed
qed

text \<open>The busy flag is set exactly while one sync request is awaited.\<close>

lemma sync_inv_mount: "pendingSync (mount i) = (if isSyncing (mount i) then 1 else 0)"
  by (simp add: mount_def initial_def fetchGitHubData_def)

lemma sync_inv_step:
  "pendingSync p = (if isSyncing p then 1 else 0) \<Longrightarrow> step p e = OnPage p' \<Longrightarrow>
   pendingSync p' = (if isSyncing p' then 1 else 0)"
  by (cases e)
    (auto simp: handler_defs render_def dashboard_of_def
      split: if_splits sum.splits thrown.splits option.splits)

lemma sync_inv_run:
  "pendingSync p = (if isSyncing p then 1 else 0) \<Longrightarrow> run (OnPage p) evs = OnPage p' \<Longrightarrow>
   pendingSync p' = (if isSyncing p' then 1 else 0)"
proof (induction evs arbitrary: p)
  case Nil
  then show ?case by simp
next
  case (Cons e evs)
  show ?case
  proof (cases "step p e")
    case (OnPage q)
    from sync_inv_step [OF Cons.prems(1) OnPage]
    have "pendingSync q = (if isSyncing q then 1 else 0)" .
    moreover from Cons.prems(2) OnPage have "run (OnPage q) evs = OnPage p'" by simp
    ultimately show ?thesis by (rule Cons.IH)
  next
    case (Navigated url)
    with Cons.prems(2) show ?thesis by (simp add: run_Navigated)
  qed
qed

lemma step_keeps_isSyncing:
  "isSyncing p \<Longrightarrow> \<not> is_SyncSettled e \<Longrightarrow> step p e = OnPage p' \<Longrightarrow> isSyncing p'"
  by (cases e)
    (auto simp: handler_defs split: if_splits sum.splits thrown.splits view.splits)

lemma run_keeps_isSyncing:
  "isSyncing p \<Longrightarrow> list_all (\<lambda>e. \<not> is_SyncSettled e) es \<Longrightarrow>
   run (OnPage p) es = OnPage q \<Longrightarrow> isSyncing q"
proof (induction es arbitrary: p)
  case Nil
  then show ?case by simp
next
  case (Cons e es)
  show ?case
  proof (cases "step p e")
    case (OnPage r)
    from Cons.prems have "\<not> is_SyncSettled e" by simp
    from step_keeps_isSyncing [OF Cons.prems(1) this OnPage] have "isSyncing r" .
    moreover from Cons.prems have "list_all (\<lambda>e. \<not> is_SyncSettled e) es" by simp
    moreover from Cons.prems(3) OnPage have "run (OnPage r) es = OnPage q" by simp
    ultimately show ?thesis by (rule Cons.IH)
  next
    case (Navigated url)
    with Cons.prems(3) show ?thesis by (simp add: run_Navigated)
  qed
qed

text \<open>No handler calls \<^verbatim>\<open>setError(null)\<close>.\<close>

lemma step_keeps_error:
  "error p \<noteq> None \<Longrightarrow> step p e = OnPage p' \<Longrightarrow> error p' \<noteq> None"
  by (cases e)
    (auto simp: handler_defs split: if_splits sum.splits thrown.splits view.splits)

lemma run_keeps_error:
  "error p \<noteq> None \<Longrightarrow> run (OnPage p) evs = OnPage p' \<Longrightarrow> error p' \<noteq> None"
proof (induction evs arbitrary: p)
  case Nil
  then show ?case by simp
next
  case (Cons e evs)
  show ?case
  proof (cases "step p e")
    case (OnPage q)
    with Cons.prems step_keeps_error have "error q \<noteq> None" by blast
    with Cons OnPage show ?thesis by simp
  next
    case (Navigated url)
    with Cons.prems(2) show ?thesis by (simp add: run_Navigated)
  qed
qed

lemma toString_42: "toString 42 = ''42''"
  by (simp add: toString_def decimal.simps digit_def)

subsection \<open>The Loading view\<close>

text \<open>
  C1: the Loading view persists until the identity has resolved and the account is not
  connected or the data fetch has settled. The page does so when it mounts with the identity
  already loaded and linked: the request is awaited and the view is Loading. It does not when
  the identity resolves after the mount: the first run of the effect, with the identity not yet
  loaded, takes the early return that clears \<^verbatim>\<open>loading\<close>, and nothing sets it again. Once
  the identity resolves as connected the request is issued and still awaited, and the page
  already shows the dashboard, without profile and with the message that there are no
  notifications.
\<close>

theorem loading_ends_before_fetch_settles:
  "render (mount unloaded_identity) = Loading \<and>
   loading (mount unloaded_identity) = False \<and>
   step (mount unloaded_identity) (IdentityChanged github_identity) =
     OnPage (useUser_changed (mount unloaded_identity) github_identity) \<and>
   requests (useUser_changed (mount unloaded_identity) github_identity) =
     [Fetch GET ''/api/github/data''] \<and>
   pendingData (useUser_changed (mount unloaded_identity) github_identity) = 1 \<and>
   render (useUser_changed (mount unloaded_identity) github_identity) =
     Connected \<lparr>sync_disabled = False, sync_label = ''Sync Data'', profile = None,
       no_notifications = True, rows = []\<rparr> \<and>
   pendingData (mount github_identity) = 1 \<and>
   render (mount github_identity) = Loading"
  by (simp add: mount_def initial_def handler_defs render_def dashboard_of_def sample_simps)

text \<open>
  At that input the conditions of the render selector are those of the Connected view: the
  identity is loaded and linked, \<^verbatim>\<open>loading\<close> is false and there is no error, while the
  request for the data is still awaited.
\<close>

theorem loading_ends_before_fetch_settles_witness:
  "isLoaded (ident (useUser_changed (mount unloaded_identity) github_identity)) \<and>
   truthy (isConnected (ident (useUser_changed (mount unloaded_identity) github_identity))) \<and>
   \<not> loading (useUser_changed (mount unloaded_identity) github_identity) \<and>
   error (useUser_changed (mount unloaded_identity) github_identity) = None \<and>
   0 < pendingData (useUser_changed (mount unloaded_identity) github_identity) \<and>
   state_of (render (useUser_changed (mount unloaded_identity) github_identity)) =
     ConnectedView"
  using loading_ends_before_fetch_settles
  by (simp add: mount_def initial_def handler_defs sample_simps)

subsection \<open>A failed sync\<close>

text \<open>
  C2, as stated: after a failed sync the page has set the error and shown the toast, and the
  dashboard remains visible. On the page that shows the dashboard and awaits a sync, the
  non-ok response \<^verbatim>\<open>{ error: "Rate limited" }\<close> leaves the full-page error panel.
\<close>

theorem sync_failure_dashboard_counterexample:
  "run (OnPage (mount github_identity)) [DataSettled (RespOk sample_data), SyncClicked] =
     OnPage syncing_page \<and>
   state_of (render syncing_page) = ConnectedView \<and>
   step syncing_page (SyncSettled (RespNotOk rate_limited)) = OnPage sync_failed_page \<and>
   error sync_failed_page = Some \<lparr>message = ''Rate limited'', details = None\<rparr> \<and>
   toasts sync_failed_page = [ToastError ''Sync Failed'' ''Rate limited''] \<and>
   render sync_failed_page = ErrorPanel ''Rate limited'' (JObj [])"
  by (simp add: mount_def initial_def handler_defs render_def dashboard_of_def sample_simps
      syncing_page_def sync_failed_page_def sample_data_def rate_limited_def)

text \<open>
  C2, amended: for every sync request that fails with a non-ok response or a thrown
  \<^verbatim>\<open>Error\<close>, the page sets the error to the message and details of the failure and shows a
  failure toast with the message; the dashboard does not remain visible: the view is no longer
  the Connected one, and where the dashboard was shown the full-page error panel with that
  message has replaced it.
\<close>

theorem sync_failure_sets_error_and_toast:
  "0 < pendingSync p \<and> try_response out = Inl (ErrorObj m d) \<longrightarrow>
     step p (SyncSettled out) =
       OnPage (p\<lparr>isSyncing := False, error := Some \<lparr>message = m, details = d\<rparr>,
         pendingSync := pendingSync p - 1,
         toasts := toasts p @ [ToastError ''Sync Failed'' m]\<rparr>) \<and>
     state_of (render (p\<lparr>isSyncing := False, error := Some \<lparr>message = m, details = d\<rparr>,
         pendingSync := pendingSync p - 1,
         toasts := toasts p @ [ToastError ''Sync Failed'' m]\<rparr>)) \<noteq> ConnectedView \<and>
     (state_of (render p) = ConnectedView \<longrightarrow>
        render (p\<lparr>isSyncing := False, error := Some \<lparr>message = m, details = d\<rparr>,
          pendingSync := pendingSync p - 1,
          toasts := toasts p @ [ToastError ''Sync Failed'' m]\<rparr>) =
          ErrorPanel m (details_dump d))"
  by (auto simp: handleSync_settled_def render_def split: if_splits option.splits)

theorem sync_failure_sets_error_and_toast_witness:
  "0 < pendingSync syncing_page \<and>
   try_response (RespNotOk rate_limited) = Inl (ErrorObj ''Rate limited'' None) \<and>
   state_of (render syncing_page) = ConnectedView \<and>
   step syncing_page (SyncSettled (RespNotOk rate_limited)) = OnPage sync_failed_page \<and>
   state_of (render sync_failed_page) \<noteq> ConnectedView \<and>
   render sync_failed_page = ErrorPanel ''Rate limited'' (JObj [])"
  using sync_failure_sets_error_and_toast
    [of syncing_page "RespNotOk rate_limited" "''Rate limited''" None]
  by (simp add: syncing_page_def sync_failed_page_def rate_limited_def render_def
      dashboard_of_def sample_simps)

subsection \<open>The render selector\<close>

text \<open>
  C4: for every combination of \<^verbatim>\<open>userLoaded\<close>, \<^verbatim>\<open>loading\<close>, \<^verbatim>\<open>isConnected\<close> and
  \<^verbatim>\<open>error\<close>, exactly one of the four view states loading, not-connected, error and connected
  is the one rendered; each is rendered under its own condition, and the four conditions
  exclude each other.
\<close>

theorem render_exactly_one_view:
  "length (filter (\<lambda>k. state_of (render p) = k)
      [LoadingView, NotConnectedView, ErrorView, ConnectedView]) = 1 \<and>
   (state_of (render p) = LoadingView) = (\<not> isLoaded (ident p) \<or> loading p) \<and>
   (state_of (render p) = NotConnectedView) =
     (isLoaded (ident p) \<and> \<not> loading p \<and> \<not> truthy (isConnected (ident p))) \<and>
   (state_of (render p) = ErrorView) =
     (isLoaded (ident p) \<and> \<not> loading p \<and> truthy (isConnected (ident p)) \<and> error p \<noteq> None) \<and>
   (state_of (render p) = ConnectedView) =
     (isLoaded (ident p) \<and> \<not> loading p \<and> truthy (isConnected (ident p)) \<and> error p = None)"
  by (cases "render p") (auto simp: render_def split: if_splits option.splits)

theorem render_exactly_one_view_witness:
  "length (filter (\<lambda>k. state_of (render sync_failed_page) = k)
      [LoadingView, NotConnectedView, ErrorView, ConnectedView]) = 1 \<and>
   state_of (render sync_failed_page) = ErrorView \<and>
   isLoaded (ident sync_failed_page) \<and> \<not> loading sync_failed_page \<and>
   truthy (isConnected (ident sync_failed_page)) \<and> error sync_failed_page \<noteq> None"
  using render_exactly_one_view [of sync_failed_page]
  by (simp add: sync_failed_page_def sample_simps)

subsection \<open>The sync control\<close>

lemma error_hides_dashboard: "error p \<noteq> None \<Longrightarrow> state_of (render p) \<noteq> ConnectedView"
  by (auto simp: render_def split: if_splits option.splits)

lemma click_without_dashboard:
  "state_of (render p) \<noteq> ConnectedView \<Longrightarrow> step p SyncClicked = OnPage p"
  by (cases "render p") simp_all

lemma sets_error_settled: "sets_error out \<Longrightarrow> error (handleSync_settled p out) \<noteq> None"
  by (induction out rule: sets_error.induct) (simp_all add: handleSync_settled_def)

lemma render_handleSync:
  "render p = Connected d \<Longrightarrow>
   render (handleSync p) = Connected (d\<lparr>sync_disabled := True, sync_label := ''Syncing...''\<rparr>)"
  by (auto simp: render_def dashboard_of_def handleSync_def split: if_splits option.splits)

lemma render_settled_without_error:
  "\<not> sets_error out \<Longrightarrow> render q = Connected d \<Longrightarrow>
   render (handleSync_settled (q\<lparr>pendingSync := n\<rparr>) out) =
     Connected (d\<lparr>sync_disabled := False, sync_label := ''Sync Data''\<rparr>)"
  by (induction out rule: sets_error.induct)
    (auto simp: render_def dashboard_of_def handleSync_settled_def split: if_splits option.splits)

text \<open>
  C5, as stated: the sync control is re-enabled on settlement whether the request succeeds or
  fails. On the page that shows the dashboard with the control disabled and awaits a sync, a
  thrown \<^verbatim>\<open>Error\<close> clears the busy flag and leaves the error panel: there is no sync
  control any more, and a click dispatches nothing.
\<close>

theorem sync_control_reenabled_counterexample:
  "run (OnPage loaded_page) [SyncClicked] = OnPage syncing_page \<and>
   render syncing_page = Connected (dashboard_of syncing_page) \<and>
   sync_disabled (dashboard_of syncing_page) \<and>
   step syncing_page (SyncSettled (Throws (ErrorObj ''Failed to fetch'' None))) =
     OnPage (syncing_page\<lparr>isSyncing := False, pendingSync := 0,
       error := Some \<lparr>message = ''Failed to fetch'', details = None\<rparr>,
       toasts := [ToastError ''Sync Failed'' ''Failed to fetch'']\<rparr>) \<and>
   render (syncing_page\<lparr>isSyncing := False, pendingSync := 0,
       error := Some \<lparr>message = ''Failed to fetch'', details = None\<rparr>,
       toasts := [ToastError ''Sync Failed'' ''Failed to fetch'']\<rparr>) =
     ErrorPanel ''Failed to fetch'' (JObj []) \<and>
   step (syncing_page\<lparr>isSyncing := False, pendingSync := 0,
       error := Some \<lparr>message = ''Failed to fetch'', details = None\<rparr>,
       toasts := [ToastError ''Sync Failed'' ''Failed to fetch'']\<rparr>) SyncClicked =
     OnPage (syncing_page\<lparr>isSyncing := False, pendingSync := 0,
       error := Some \<lparr>message = ''Failed to fetch'', details = None\<rparr>,
       toasts := [ToastError ''Sync Failed'' ''Failed to fetch'']\<rparr>)"
  by (simp add: loaded_page_def syncing_page_def handler_defs render_def dashboard_of_def
      sample_simps)

text \<open>
  C5, amended: on every page reached from a mount at most one sync request is awaited, and the
  busy flag is set exactly while one is. A click on the enabled sync control issues the
  request and disables the control; from there, through any events other than the settlement
  of that request, the flag stays set, the control is disabled wherever the dashboard is
  rendered, and a click on it dispatches nothing. The settlement clears the flag and leaves no
  sync request awaited, whatever its outcome. After a success, or a throw of a value that is
  not an \<^verbatim>\<open>Error\<close>, the control is enabled again where the dashboard is shown, and a click
  dispatches the next request. After a non-ok response or a thrown \<^verbatim>\<open>Error\<close> the dashboard is
  not shown, and through all later events it is never shown again: the control is not
  re-enabled, it is gone.
\<close>

theorem sync_control_disabled_until_settled:
  "(run (OnPage (mount i)) evs = OnPage p \<longrightarrow>
      pendingSync p \<le> 1 \<and> isSyncing p = (pendingSync p = 1)) \<and>
   (run (OnPage (mount i)) evs = OnPage p \<and> render p = Connected d \<and> \<not> sync_disabled d \<longrightarrow>
      step p SyncClicked = OnPage (handleSync p) \<and>
      requests (handleSync p) = requests p @ [Fetch POST ''/api/github/sync''] \<and>
      render (handleSync p) =
        Connected (d\<lparr>sync_disabled := True, sync_label := ''Syncing...''\<rparr>) \<and>
      (list_all (\<lambda>e. \<not> is_SyncSettled e) es \<and> run (OnPage (handleSync p)) es = OnPage q \<longrightarrow>
         isSyncing q \<and> pendingSync q = 1 \<and>
         step q SyncClicked = OnPage q \<and>
         (render q = Connected d' \<longrightarrow> sync_disabled d') \<and>
         step q (SyncSettled out) = OnPage (handleSync_settled (q\<lparr>pendingSync := 0\<rparr>) out) \<and>
         \<not> isSyncing (handleSync_settled (q\<lparr>pendingSync := 0\<rparr>) out) \<and>
         pendingSync (handleSync_settled (q\<lparr>pendingSync := 0\<rparr>) out) = 0 \<and>
         (\<not> sets_error out \<and> render q = Connected d' \<longrightarrow>
            render (handleSync_settled (q\<lparr>pendingSync := 0\<rparr>) out) =
              Connected (d'\<lparr>sync_disabled := False, sync_label := ''Sync Data''\<rparr>) \<and>
            step (handleSync_settled (q\<lparr>pendingSync := 0\<rparr>) out) SyncClicked =
              OnPage (handleSync (handleSync_settled (q\<lparr>pendingSync := 0\<rparr>) out))) \<and>
         (sets_error out \<longrightarrow>
            state_of (render (handleSync_settled (q\<lparr>pendingSync := 0\<rparr>) out)) \<noteq>
              ConnectedView \<and>
            (run (OnPage (handleSync_settled (q\<lparr>pendingSync := 0\<rparr>) out)) es' = OnPage r \<longrightarrow>
               state_of (render r) \<noteq> ConnectedView \<and> step r SyncClicked = OnPage r))))"
proof -
  have a: "run (OnPage (mount i)) evs = OnPage p \<longrightarrow>
      pendingSync p \<le> 1 \<and> isSyncing p = (pendingSync p = 1)"
  proof
    assume "run (OnPage (mount i)) evs = OnPage p"
    from sync_inv_run [OF sync_inv_mount this]
    show "pendingSync p \<le> 1 \<and> isSyncing p = (pendingSync p = 1)"
      by (simp split: if_splits)
  qed
  have b: "run (OnPage (mount i)) evs = OnPage p \<and> render p = Connected d \<and>
      \<not> sync_disabled d \<longrightarrow>
      step p SyncClicked = OnPage (handleSync p) \<and>
      requests (handleSync p) = requests p @ [Fetch POST ''/api/github/sync''] \<and>
      render (handleSync p) =
        Connected (d\<lparr>sync_disabled := True, sync_label := ''Syncing...''\<rparr>) \<and>
      (list_all (\<lambda>e. \<not> is_SyncSettled e) es \<and> run (OnPage (handleSync p)) es = OnPage q \<longrightarrow>
         isSyncing q \<and> pendingSync q = 1 \<and>
         step q SyncClicked = OnPage q \<and>
         (render q = Connected d' \<longrightarrow> sync_disabled d') \<and>
         step q (SyncSettled out) = OnPage (handleSync_settled (q\<lparr>pendingSync := 0\<rparr>) out) \<and>
         \<not> isSyncing (handleSync_settled (q\<lparr>pendingSync := 0\<rparr>) out) \<and>
         pendingSync (handleSync_settled (q\<lparr>pendingSync := 0\<rparr>) out) = 0 \<and>
         (\<not> sets_error out \<and> render q = Connected d' \<longrightarrow>
            render (handleSync_settled (q\<lparr>pendingSync := 0\<rparr>) out) =
              Connected (d'\<lparr>sync_disabled := False, sync_label := ''Sync Data''\<rparr>) \<and>
            step (handleSync_settled (q\<lparr>pendingSync := 0\<rparr>) out) SyncClicked =
              OnPage (handleSync (handleSync_settled (q\<lparr>pendingSync := 0\<rparr>) out))) \<and>
         (sets_error out \<longrightarrow>
            state_of (render (handleSync_settled (q\<lparr>pendingSync := 0\<rparr>) out)) \<noteq>
              ConnectedView \<and>
            (run (OnPage (handleSync_settled (q\<lparr>pendingSync := 0\<rparr>) out)) es' = OnPage r \<longrightarrow>
               state_of (render r) \<noteq> ConnectedView \<and> step r SyncClicked = OnPage r)))"
  proof
    assume h: "run (OnPage (mount i)) evs = OnPage p \<and> render p = Connected d \<and>
      \<not> sync_disabled d"
    from h have click: "step p SyncClicked = OnPage (handleSync p)"
      by simp
    have post: "requests (handleSync p) = requests p @ [Fetch POST ''/api/github/sync'']"
      by (simp add: handleSync_def)
    from h have shown: "render (handleSync p) =
        Connected (d\<lparr>sync_disabled := True, sync_label := ''Syncing...''\<rparr>)"
      by (simp add: render_handleSync)
    have during: "list_all (\<lambda>e. \<not> is_SyncSettled e) es \<and>
        run (OnPage (handleSync p)) es = OnPage q \<longrightarrow>
         isSyncing q \<and> pendingSync q = 1 \<and>
         step q SyncClicked = OnPage q \<and>
         (render q = Connected d' \<longrightarrow> sync_disabled d') \<and>
         step q (SyncSettled out) = OnPage (handleSync_settled (q\<lparr>pendingSync := 0\<rparr>) out) \<and>
         \<not> isSyncing (handleSync_settled (q\<lparr>pendingSync := 0\<rparr>) out) \<and>
         pendingSync (handleSync_settled (q\<lparr>pendingSync := 0\<rparr>) out) = 0 \<and>
         (\<not> sets_error out \<and> render q = Connected d' \<longrightarrow>
            render (handleSync_settled (q\<lparr>pendingSync := 0\<rparr>) out) =
              Connected (d'\<lparr>sync_disabled := False, sync_label := ''Sync Data''\<rparr>) \<and>
            step (handleSync_settled (q\<lparr>pendingSync := 0\<rparr>) out) SyncClicked =
              OnPage (handleSync (handleSync_settled (q\<lparr>pendingSync := 0\<rparr>) out))) \<and>
         (sets_error out \<longrightarrow>
            state_of (render (handleSync_settled (q\<lparr>pendingSync := 0\<rparr>) out)) \<noteq>
              ConnectedView \<and>
            (run (OnPage (handleSync_settled (q\<lparr>pendingSync := 0\<rparr>) out)) es' = OnPage r \<longrightarrow>
               state_of (render r) \<noteq> ConnectedView \<and> step r SyncClicked = OnPage r))"
    proof
      assume h2: "list_all (\<lambda>e. \<not> is_SyncSettled e) es \<and>
        run (OnPage (handleSync p)) es = OnPage q"
      from h have idle: "\<not> isSyncing p"
        by (auto simp: render_def dashboard_of_def split: if_splits option.splits)
      from h sync_inv_run [OF sync_inv_mount]
      have "pendingSync p = (if isSyncing p then 1 else 0)"
        by blast
      with idle have "pendingSync (handleSync p) = (if isSyncing (handleSync p) then 1 else 0)"
        by (simp add: handleSync_def)
      from sync_inv_run [OF this] h2 have inv: "pendingSync q = (if isSyncing q then 1 else 0)"
        by blast
      have "isSyncing (handleSync p)"
        by (simp add: handleSync_def)
      from run_keeps_isSyncing [OF this] h2 have busy: "isSyncing q"
        by blast
      with inv have one: "pendingSync q = 1"
        by simp
      from busy have again: "step q SyncClicked = OnPage q"
        by (auto simp: render_def dashboard_of_def split: view.splits if_splits option.splits)
      from busy have disabled: "render q = Connected d' \<longrightarrow> sync_disabled d'"
        by (auto simp: render_def dashboard_of_def split: if_splits option.splits)
      from one have settle: "step q (SyncSettled out) =
          OnPage (handleSync_settled (q\<lparr>pendingSync := 0\<rparr>) out)"
        by simp
      have cleared: "\<not> isSyncing (handleSync_settled (q\<lparr>pendingSync := 0\<rparr>) out)"
        by (simp add: handleSync_settled_def split: sum.splits thrown.splits)
      have none: "pendingSync (handleSync_settled (q\<lparr>pendingSync := 0\<rparr>) out) = 0"
        by (simp add: handleSync_settled_def split: sum.splits thrown.splits)
      have enabled: "\<not> sets_error out \<and> render q = Connected d' \<longrightarrow>
            render (handleSync_settled (q\<lparr>pendingSync := 0\<rparr>) out) =
              Connected (d'\<lparr>sync_disabled := False, sync_label := ''Sync Data''\<rparr>) \<and>
            step (handleSync_settled (q\<lparr>pendingSync := 0\<rparr>) out) SyncClicked =
              OnPage (handleSync (handleSync_settled (q\<lparr>pendingSync := 0\<rparr>) out))"
      proof
        assume s: "\<not> sets_error out \<and> render q = Connected d'"
        then have "render (handleSync_settled (q\<lparr>pendingSync := 0\<rparr>) out) =
              Connected (d'\<lparr>sync_disabled := False, sync_label := ''Sync Data''\<rparr>)"
          by (simp add: render_settled_without_error)
        then show "render (handleSync_settled (q\<lparr>pendingSync := 0\<rparr>) out) =
              Connected (d'\<lparr>sync_disabled := False, sync_label := ''Sync Data''\<rparr>) \<and>
            step (handleSync_settled (q\<lparr>pendingSync := 0\<rparr>) out) SyncClicked =
              OnPage (handleSync (handleSync_settled (q\<lparr>pendingSync := 0\<rparr>) out))"
          by simp
      qed
      have gone: "sets_error out \<longrightarrow>
            state_of (render (handleSync_settled (q\<lparr>pendingSync := 0\<rparr>) out)) \<noteq>
              ConnectedView \<and>
            (run (OnPage (handleSync_settled (q\<lparr>pendingSync := 0\<rparr>) out)) es' = OnPage r \<longrightarrow>
               state_of (render r) \<noteq> ConnectedView \<and> step r SyncClicked = OnPage r)"
      proof
        assume "sets_error out"
        then have e: "error (handleSync_settled (q\<lparr>pendingSync := 0\<rparr>) out) \<noteq> None"
          by (rule sets_error_settled)
        then have now: "state_of (render (handleSync_settled (q\<lparr>pendingSync := 0\<rparr>) out)) \<noteq>
            ConnectedView"
          by (rule error_hides_dashboard)
        have later: "run (OnPage (handleSync_settled (q\<lparr>pendingSync := 0\<rparr>) out)) es' =
            OnPage r \<longrightarrow> state_of (render r) \<noteq> ConnectedView \<and> step r SyncClicked = OnPage r"
        proof
          assume "run (OnPage (handleSync_settled (q\<lparr>pendingSync := 0\<rparr>) out)) es' = OnPage r"
          from run_keeps_error [OF e this] have hidden: "state_of (render r) \<noteq> ConnectedView"
            by (rule error_hides_dashboard)
          from hidden click_without_dashboard [OF hidden]
          show "state_of (render r) \<noteq> ConnectedView \<and> step r SyncClicked = OnPage r"
            by blast
        qed
        from now later
        show "state_of (render (handleSync_settled (q\<lparr>pendingSync := 0\<rparr>) out)) \<noteq>
              ConnectedView \<and>
            (run (OnPage (handleSync_settled (q\<lparr>pendingSync := 0\<rparr>) out)) es' = OnPage r \<longrightarrow>
               state_of (render r) \<noteq> ConnectedView \<and> step r SyncClicked = OnPage r)"
          by blast
      qed
      from busy one again disabled settle cleared none enabled gone
      show "isSyncing q \<and> pendingSync q = 1 \<and>
         step q SyncClicked = OnPage q \<and>
         (render q = Connected d' \<longrightarrow> sync_disabled d') \<and>
         step q (SyncSettled out) = OnPage (handleSync_settled (q\<lparr>pendingSync := 0\<rparr>) out) \<and>
         \<not> isSyncing (handleSync_settled (q\<lparr>pendingSync := 0\<rparr>) out) \<and>
         pendingSync (handleSync_settled (q\<lparr>pendingSync := 0\<rparr>) out) = 0 \<and>
         (\<not> sets_error out \<and> render q = Connected d' \<longrightarrow>
            render (handleSync_settled (q\<lparr>pendingSync := 0\<rparr>) out) =
              Connected (d'\<lparr>sync_disabled := False, sync_label := ''Sync Data''\<rparr>) \<and>
            step (handleSync_settled (q\<lparr>pendingSync := 0\<rparr>) out) SyncClicked =
              OnPage (handleSync (handleSync_settled (q\<lparr>pendingSync := 0\<rparr>) out))) \<and>
         (sets_error out \<longrightarrow>
            state_of (render (handleSync_settled (q\<lparr>pendingSync := 0\<rparr>) out)) \<noteq>
              ConnectedView \<and>
            (run (OnPage (handleSync_settled (q\<lparr>pendingSync := 0\<rparr>) out)) es' = OnPage r \<longrightarrow>
               state_of (render r) \<noteq> ConnectedView \<and> step r SyncClicked = OnPage r))"
        by blast
    qed
    from click post shown during
    show "step p SyncClicked = OnPage (handleSync p) \<and>
      requests (handleSync p) = requests p @ [Fetch POST ''/api/github/sync''] \<and>
      render (handleSync p) =
        Connected (d\<lparr>sync_disabled := True, sync_label := ''Syncing...''\<rparr>) \<and>
      (list_all (\<lambda>e. \<not> is_SyncSettled e) es \<and> run (OnPage (handleSync p)) es = OnPage q \<longrightarrow>
         isSyncing q \<and> pendingSync q = 1 \<and>
         step q SyncClicked = OnPage q \<and>
         (render q = Connected d' \<longrightarrow> sync_disabled d') \<and>
         step q (SyncSettled out) = OnPage (handleSync_settled (q\<lparr>pendingSync := 0\<rparr>) out) \<and>
         \<not> isSyncing (handleSync_settled (q\<lparr>pendingSync := 0\<rparr>) out) \<and>
         pendingSync (handleSync_settled (q\<lparr>pendingSync := 0\<rparr>) out) = 0 \<and>
         (\<not> sets_error out \<and> render q = Connected d' \<longrightarrow>
            render (handleSync_settled (q\<lparr>pendingSync := 0\<rparr>) out) =
              Connected (d'\<lparr>sync_disabled := False, sync_label := ''Sync Data''\<rparr>) \<and>
            step (handleSync_settled (q\<lparr>pendingSync := 0\<rparr>) out) SyncClicked =
              OnPage (handleSync (handleSync_settled (q\<lparr>pendingSync := 0\<rparr>) out))) \<and>
         (sets_error out \<longrightarrow>
            state_of (render (handleSync_settled (q\<lparr>pendingSync := 0\<rparr>) out)) \<noteq>
              ConnectedView \<and>
            (run (OnPage (handleSync_settled (q\<lparr>pendingSync := 0\<rparr>) out)) es' = OnPage r \<longrightarrow>
               state_of (render r) \<noteq> ConnectedView \<and> step r SyncClicked = OnPage r)))"
      by blast
  qed
  from a b show ?thesis by blast
qed

theorem sync_control_disabled_until_settled_witness:
  "run (OnPage (mount github_identity)) [DataSettled (RespOk sample_data)] = OnPage loaded_page \<and>
   render loaded_page = Connected (dashboard_of loaded_page) \<and>
   \<not> sync_disabled (dashboard_of loaded_page) \<and>
   pendingSync loaded_page \<le> 1 \<and>
   step loaded_page SyncClicked = OnPage (handleSync loaded_page) \<and>
   list_all (\<lambda>e. \<not> is_SyncSettled e) [DisconnectClicked, SyncClicked] \<and>
   run (OnPage (handleSync loaded_page)) [DisconnectClicked, SyncClicked] =
     OnPage (handleDisconnect syncing_page) \<and>
   isSyncing (handleDisconnect syncing_page) \<and>
   pendingSync (handleDisconnect syncing_page) = 1 \<and>
   render (handleDisconnect syncing_page) =
     Connected (dashboard_of (handleDisconnect syncing_page)) \<and>
   sync_disabled (dashboard_of (handleDisconnect syncing_page)) \<and>
   \<not> sets_error (RespOk \<lparr>chunks = 42\<rparr>) \<and>
   render (handleSync_settled (handleDisconnect syncing_page\<lparr>pendingSync := 0\<rparr>)
       (RespOk \<lparr>chunks = 42\<rparr>)) =
     Connected ((dashboard_of (handleDisconnect syncing_page))
       \<lparr>sync_disabled := False, sync_label := ''Sync Data''\<rparr>) \<and>
   sets_error (RespNotOk rate_limited :: syncResult outcome) \<and>
   run (OnPage (handleSync_settled (handleDisconnect syncing_page\<lparr>pendingSync := 0\<rparr>)
       (RespNotOk rate_limited)))
     [IdentityChanged google_identity, IdentityChanged github_identity] =
     OnPage (useUser_changed (useUser_changed
       (handleSync_settled (handleDisconnect syncing_page\<lparr>pendingSync := 0\<rparr>)
          (RespNotOk rate_limited)) google_identity) github_identity) \<and>
   state_of (render (useUser_changed (useUser_changed
       (handleSync_settled (handleDisconnect syncing_page\<lparr>pendingSync := 0\<rparr>)
          (RespNotOk rate_limited)) google_identity) github_identity)) \<noteq> ConnectedView"
  using sync_control_disabled_until_settled
    [of github_identity "[DataSettled (RespOk sample_data)]" loaded_page
      "dashboard_of loaded_page" "[DisconnectClicked, SyncClicked]"
      "handleDisconnect syncing_page" "dashboard_of (handleDisconnect syncing_page)"
      "RespOk \<lparr>chunks = 42\<rparr>"]
    sync_control_disabled_until_settled
    [of github_identity "[DataSettled (RespOk sample_data)]" loaded_page
      "dashboard_of loaded_page" "[DisconnectClicked, SyncClicked]"
      "handleDisconnect syncing_page" "dashboard_of (handleDisconnect syncing_page)"
      "RespNotOk rate_limited"
      "[IdentityChanged google_identity, IdentityChanged github_identity]"
      "useUser_changed (useUser_changed
         (handleSync_settled (handleDisconnect syncing_page\<lparr>pendingSync := 0\<rparr>)
            (RespNotOk rate_limited)) google_identity) github_identity"]
  by (simp add: mount_def initial_def handler_defs render_def dashboard_of_def sample_simps
      loaded_page_def syncing_page_def sample_data_def)

subsection \<open>Disconnect\<close>

text \<open>
  C6: when an awaited disconnect request settles with an ok response, the browser is sent to
  \<^verbatim>\<open>/integrations\<close> and nothing of the page is kept; when it settles with a non-ok response
  or a throw, the page stays, with its error set to the failure and nothing else changed.
\<close>

theorem disconnect_settlement:
  "0 < pendingDisconnect p \<longrightarrow>
     step p (DisconnectSettled (RespOk ())) = Navigated ''/integrations'' \<and>
     step p (DisconnectSettled (RespNotOk b)) =
       OnPage (p\<lparr>error := Some \<lparr>message = body_error b, details = body_details b\<rparr>,
         pendingDisconnect := pendingDisconnect p - 1\<rparr>) \<and>
     step p (DisconnectSettled (Throws t)) =
       OnPage (p\<lparr>error := Some (caught t), pendingDisconnect := pendingDisconnect p - 1\<rparr>)"
  by (simp add: handleDisconnect_settled_def)

theorem disconnect_settlement_witness:
  "step loaded_page DisconnectClicked = OnPage (handleDisconnect loaded_page) \<and>
   0 < pendingDisconnect (handleDisconnect loaded_page) \<and>
   step (handleDisconnect loaded_page) (DisconnectSettled (RespOk ())) =
     Navigated ''/integrations'' \<and>
   step (handleDisconnect loaded_page) (DisconnectSettled (RespNotOk rate_limited)) =
     OnPage (loaded_page\<lparr>error := Some \<lparr>message = ''Rate limited'', details = None\<rparr>,
       requests := [Fetch GET ''/api/github/data'', Fetch POST ''/api/github/disconnect'']\<rparr>) \<and>
   step (handleDisconnect loaded_page) (DisconnectSettled (Throws NonError)) =
     OnPage (loaded_page\<lparr>error := Some \<lparr>message = ''An unknown error occurred'', details = None\<rparr>,
       requests := [Fetch GET ''/api/github/data'', Fetch POST ''/api/github/disconnect'']\<rparr>)"
  using disconnect_settlement [of "handleDisconnect loaded_page" rate_limited NonError]
  by (simp add: handleDisconnect_def loaded_page_def rate_limited_def render_def
      dashboard_of_def sample_simps)

subsection \<open>No linked account\<close>

text \<open>
  C7: on every page reached from a mount, if the identity is loaded and has no linked account
  with provider \<^verbatim>\<open>github\<close>, the connect prompt is rendered. The effect issues no request
  when it runs for an identity without such an account, at the mount or at a later change of
  the identity; and as long as no identity of the run has such an account, the page has issued
  no request at all.
\<close>

theorem no_github_account_connect_prompt:
  "(run (OnPage (mount i)) evs = OnPage p \<and> isLoaded (ident p) \<and>
      \<not> truthy (isConnected (ident p)) \<longrightarrow> render p = NotConnected) \<and>
   (\<not> truthy (isConnected i) \<longrightarrow>
      requests (mount i) = [] \<and>
      step q (IdentityChanged i) = OnPage (useUser_changed q i) \<and>
      requests (useUser_changed q i) = requests q) \<and>
   (\<not> truthy (isConnected i) \<and> list_all no_github evs \<and>
      run (OnPage (mount i)) evs = OnPage p \<longrightarrow> requests p = [])"
proof -
  have a: "run (OnPage (mount i)) evs = OnPage p \<and> isLoaded (ident p) \<and>
      \<not> truthy (isConnected (ident p)) \<longrightarrow> render p = NotConnected"
  proof
    assume h: "run (OnPage (mount i)) evs = OnPage p \<and> isLoaded (ident p) \<and>
      \<not> truthy (isConnected (ident p))"
    have "loading (mount i) \<longrightarrow>
        isLoaded (ident (mount i)) \<and> truthy (isConnected (ident (mount i)))"
      using loading_inv_mount [of i] by (simp add: ident_mount)
    from loading_inv_run [OF this] h have "\<not> loading p" by blast
    with h show "render p = NotConnected" by (simp add: render_def)
  qed
  have b: "\<not> truthy (isConnected i) \<longrightarrow>
      requests (mount i) = [] \<and>
      step q (IdentityChanged i) = OnPage (useUser_changed q i) \<and>
      requests (useUser_changed q i) = requests q"
    by (simp add: mount_def initial_def fetchGitHubData_def useUser_changed_def)
  have c: "\<not> truthy (isConnected i) \<and> list_all no_github evs \<and>
      run (OnPage (mount i)) evs = OnPage p \<longrightarrow> requests p = []"
  proof
    assume h: "\<not> truthy (isConnected i) \<and> list_all no_github evs \<and>
      run (OnPage (mount i)) evs = OnPage p"
    then have "\<not> truthy (isConnected (ident (mount i)))" "requests (mount i) = []"
      by (simp_all add: mount_def initial_def fetchGitHubData_def)
    from never_connected_run [OF this] h show "requests p = []" by blast
  qed
  from a b c show ?thesis by blast
qed

theorem no_github_account_connect_prompt_witness:
  "\<not> truthy (isConnected unloaded_identity) \<and>
   list_all no_github [IdentityChanged google_identity, SyncClicked] \<and>
   run (OnPage (mount unloaded_identity)) [IdentityChanged google_identity, SyncClicked] =
     OnPage (useUser_changed (mount unloaded_identity) google_identity) \<and>
   isLoaded (ident (useUser_changed (mount unloaded_identity) google_identity)) \<and>
   \<not> truthy (isConnected (ident (useUser_changed (mount unloaded_identity) google_identity))) \<and>
   render (useUser_changed (mount unloaded_identity) google_identity) = NotConnected \<and>
   requests (useUser_changed (mount unloaded_identity) google_identity) = [] \<and>
   requests (mount unloaded_identity) = [] \<and>
   requests (useUser_changed loaded_page unloaded_identity) = requests loaded_page"
  using no_github_account_connect_prompt
    [of unloaded_identity "[IdentityChanged google_identity, SyncClicked]"
      "useUser_changed (mount unloaded_identity) google_identity" loaded_page]
  by (simp add: mount_def initial_def handler_defs render_def sample_simps)

subsection \<open>The success toast\<close>

lemma digit_reads_back: "d < 10 \<Longrightarrow> is_digit (digit d) \<and> digit_value (digit d) = d"
proof -
  assume "d < 10"
  then have "d = 0 \<or> d = 1 \<or> d = 2 \<or> d = 3 \<or> d = 4 \<or> d = 5 \<or> d = 6 \<or> d = 7 \<or> d = 8 \<or> d = 9"
    by arith
  then show ?thesis
    by (elim disjE) (simp_all add: digit_def is_digit_def digit_value_def)
qed

lemma numeral_value_snoc: "numeral_value (s @ [c]) = 10 * numeral_value s + digit_value c"
  by (simp add: numeral_value_def)

lemma decimal_digits: "decimal n \<noteq> [] \<and> list_all is_digit (decimal n)"
proof (induction n rule: decimal.induct)
  case (1 n)
  show ?case
  proof (cases "n < 10")
    case True
    then show ?thesis
      using digit_reads_back [of n] by (simp add: decimal.simps [of n])
  next
    case False
    have "n mod 10 < 10" by simp
    from digit_reads_back [OF this] "1.IH" [OF False] False show ?thesis
      by (simp add: decimal.simps [of n])
  qed
qed

lemma decimal_reads_back: "numeral_value (decimal n) = n"
proof (induction n rule: decimal.induct)
  case (1 n)
  show ?case
  proof (cases "n < 10")
    case True
    then show ?thesis
      using digit_reads_back [of n] by (simp add: decimal.simps [of n] numeral_value_def)
  next
    case False
    have "n mod 10 < 10" by simp
    from digit_reads_back [OF this] "1.IH" [OF False] False show ?thesis
      by (simp add: decimal.simps [of n] numeral_value_snoc)
  qed
qed

text \<open>
  C8: when an awaited sync request settles with an ok response, a success toast is shown whose
  text is \<^verbatim>\<open>Successfully stored \<close>, the chunk count of the response and
  \<^verbatim>\<open> chunks in the database.\<close>; the text contains the count as its decimal numeral, a
  non-empty text of digits whose value is the count. For \<^verbatim>\<open>{ chunks: 42 }\<close> the text is
  \<^verbatim>\<open>Successfully stored 42 chunks in the database.\<close>, which contains \<^verbatim>\<open>42\<close>.
\<close>

theorem sync_success_toast_contains_chunks:
  "0 < pendingSync p \<longrightarrow>
     step p (SyncSettled (RespOk r)) =
       OnPage (p\<lparr>isSyncing := False, pendingSync := pendingSync p - 1,
         toasts := toasts p @
           [ToastSuccess ''GitHub Data Synced''
              (''Successfully stored '' @ toString (chunks r) @ '' chunks in the database.'')]\<rparr>) \<and>
     includes_str (''Successfully stored '' @ toString (chunks r) @ '' chunks in the database.'')
       (toString (chunks r)) \<and>
     toString (chunks r) \<noteq> [] \<and>
     list_all is_digit (toString (chunks r)) \<and>
     numeral_value (toString (chunks r)) = unat (chunks r) \<and>
     (chunks r = 42 \<longrightarrow>
        ''Successfully stored '' @ toString (chunks r) @ '' chunks in the database.'' =
          ''Successfully stored 42 chunks in the database.'' \<and>
        includes_str ''Successfully stored 42 chunks in the database.'' ''42'')"
proof
  assume pending: "0 < pendingSync p"
  have a: "step p (SyncSettled (RespOk r)) =
       OnPage (p\<lparr>isSyncing := False, pendingSync := pendingSync p - 1,
         toasts := toasts p @
           [ToastSuccess ''GitHub Data Synced''
              (''Successfully stored '' @ toString (chunks r) @ '' chunks in the database.'')]\<rparr>)"
    using pending by (simp add: handleSync_settled_def)
  have b: "includes_str
      (''Successfully stored '' @ toString (chunks r) @ '' chunks in the database.'')
      (toString (chunks r))"
    by (rule includes_append)
  have c: "toString (chunks r) \<noteq> [] \<and> list_all is_digit (toString (chunks r))"
    using decimal_digits [of "unat (chunks r)"] by (simp add: toString_def)
  have d: "numeral_value (toString (chunks r)) = unat (chunks r)"
    by (simp add: toString_def decimal_reads_back)
  have e: "chunks r = 42 \<longrightarrow>
        ''Successfully stored '' @ toString (chunks r) @ '' chunks in the database.'' =
          ''Successfully stored 42 chunks in the database.'' \<and>
        includes_str ''Successfully stored 42 chunks in the database.'' ''42''"
    by (simp add: toString_42)
  from a b c d e show "step p (SyncSettled (RespOk r)) =
       OnPage (p\<lparr>isSyncing := False, pendingSync := pendingSync p - 1,
         toasts := toasts p @
           [ToastSuccess ''GitHub Data Synced''
              (''Successfully stored '' @ toString (chunks r) @ '' chunks in the database.'')]\<rparr>) \<and>
     includes_str (''Successfully stored '' @ toString (chunks r) @ '' chunks in the database.'')
       (toString (chunks r)) \<and>
     toString (chunks r) \<noteq> [] \<and>
     list_all is_digit (toString (chunks r)) \<and>
     numeral_value (toString (chunks r)) = unat (chunks r) \<and>
     (chunks r = 42 \<longrightarrow>
        ''Successfully stored '' @ toString (chunks r) @ '' chunks in the database.'' =
          ''Successfully stored 42 chunks in the database.'' \<and>
        includes_str ''Successfully stored 42 chunks in the database.'' ''42'')"
    by blast
qed

theorem sync_success_toast_contains_chunks_witness:
  "0 < pendingSync syncing_page \<and> chunks \<lparr>chunks = 42\<rparr> = 42 \<and>
   step syncing_page (SyncSettled (RespOk \<lparr>chunks = 42\<rparr>)) =
     OnPage (loaded_page\<lparr>
       requests := [Fetch GET ''/api/github/data'', Fetch POST ''/api/github/sync''],
       toasts := [ToastSuccess ''GitHub Data Synced''
         ''Successfully stored 42 chunks in the database.'']\<rparr>) \<and>
   includes_str ''Successfully stored 42 chunks in the database.'' ''42'' \<and>
   list_all is_digit ''42'' \<and> numeral_value ''42'' = 42"
  using sync_success_toast_contains_chunks [of syncing_page "\<lparr>chunks = 42\<rparr>"]
  by (simp add: syncing_page_def loaded_page_def toString_42)

subsection \<open>The error is never cleared\<close>

text \<open>
  C9: once the error is set, no event of the page clears it: as long as the page is mounted,
  whatever requests settle, whatever is clicked and however the identity changes, the error
  stays set. (It can be replaced by a later error, and the page can be left by the redirect
  after a disconnect.)
\<close>

theorem error_never_cleared:
  "error p \<noteq> None \<and> run (OnPage p) evs = OnPage p' \<longrightarrow> error p' \<noteq> None"
  using run_keeps_error by blast

theorem error_never_cleared_witness:
  "error sync_failed_page \<noteq> None \<and>
   run (OnPage sync_failed_page)
     [IdentityChanged google_identity, SyncClicked, DataSettled (RespOk sample_data),
      IdentityChanged github_identity, DataSettled (RespOk sample_data)] =
     OnPage (sync_failed_page\<lparr>
       requests := [Fetch GET ''/api/github/data'', Fetch POST ''/api/github/sync'',
         Fetch GET ''/api/github/data'']\<rparr>) \<and>
   error (sync_failed_page\<lparr>
       requests := [Fetch GET ''/api/github/data'', Fetch POST ''/api/github/sync'',
         Fetch GET ''/api/github/data'']\<rparr>) \<noteq> None"
  using error_never_cleared
    [of sync_failed_page
      "[IdentityChanged google_identity, SyncClicked, DataSettled (RespOk sample_data),
        IdentityChanged github_identity, DataSettled (RespOk sample_data)]"
      "sync_failed_page\<lparr>
       requests := [Fetch GET ''/api/github/data'', Fetch POST ''/api/github/sync'',
         Fetch GET ''/api/github/data'']\<rparr>"]
  by (simp add: sync_failed_page_def handler_defs render_def sample_simps sample_data_def)

subsection \<open>The profile heading\<close>

text \<open>
  C10: in the Connected view, when a profile is present, the profile card is rendered and its
  heading is the display name of the profile if that is not \<^verbatim>\<open>null\<close>, and the login
  otherwise.
\<close>

theorem profile_heading_name_or_login:
  "render p = Connected d \<and> githubUser p = Some u \<longrightarrow>
     map_option heading (profile d) =
       Some (case name u of Some n \<Rightarrow> n | None \<Rightarrow> login u)"
  by (auto simp: render_def dashboard_of_def profile_of_def split: if_splits option.splits)

theorem profile_heading_name_or_login_witness:
  "render loaded_page = Connected (dashboard_of loaded_page) \<and>
   githubUser loaded_page = Some octocat \<and> name octocat = None \<and>
   map_option heading (profile (dashboard_of loaded_page)) = Some ''octocat'' \<and>
   render (loaded_page\<lparr>githubUser := Some mona\<rparr>) =
     Connected (dashboard_of (loaded_page\<lparr>githubUser := Some mona\<rparr>)) \<and>
   githubUser (loaded_page\<lparr>githubUser := Some mona\<rparr>) = Some mona \<and>
   name mona = Some ''Mona Lisa'' \<and>
   map_option heading (profile (dashboard_of (loaded_page\<lparr>githubUser := Some mona\<rparr>))) =
     Some ''Mona Lisa''"
  using profile_heading_name_or_login [of loaded_page "dashboard_of loaded_page" octocat]
    profile_heading_name_or_login
      [of "loaded_page\<lparr>githubUser := Some mona\<rparr>"
        "dashboard_of (loaded_page\<lparr>githubUser := Some mona\<rparr>)" mona]
  by (simp add: loaded_page_def render_def sample_simps octocat_def mona_def)

end
